theory Spec2Isabelle
  imports Main "HOL-Library.Word"
begin

section \<open>Strings and headers: what the package takes from the standard library\<close>

text \<open>
  The package is Go. A Go \<open>string\<close> and a \<open>[]byte\<close> are byte sequences: both are
  \<^typ>\<open>string\<close> here. The functions of Go's standard library that the package calls are
  not part of the repository. Those with a short, fixed meaning on bytes
  (\<open>strings.Split\<close>, \<open>strings.Trim\<close>, \<open>http.CanonicalHeaderKey\<close>, \<open>Header.Get\<close>,
  \<open>Header.Set\<close>) are written out below; the clock, the two parsers of package \<open>time\<close> and
  the wire codec of \<open>net/http\<close> are parameters (record \<open>env\<close>), so that a theorem holds
  for whatever they compute.
\<close>

type_synonym bytes = string

text \<open>\<open>strings.Split(s, sep)\<close> for a separator of one byte: one field more than there are
  separators, so \<open>strings.Split("", ",")\<close> is the list of one empty string.\<close>

fun strings_Split :: "string \<Rightarrow> char \<Rightarrow> string list" where
  "strings_Split [] sep = [[]]"
| "strings_Split (c # cs) sep =
     (if c = sep then [] # strings_Split cs sep
      else (case strings_Split cs sep of
              [] \<Rightarrow> [[c]]
            | f # fs \<Rightarrow> (c # f) # fs))"

text \<open>\<open>strings.Trim(s, cutset)\<close>: all leading and trailing bytes of the cutset removed.\<close>

definition strings_Trim :: "string \<Rightarrow> string \<Rightarrow> string" where
  "strings_Trim s cutset =
     rev (dropWhile (\<lambda>c. c \<in> set cutset) (rev (dropWhile (\<lambda>c. c \<in> set cutset) s)))"

text \<open>\<open>strings.TrimSpace\<close> on ASCII text (header values are ASCII): tab, line feed,
  vertical tab, form feed, carriage return and space.\<close>

definition strings_TrimSpace :: "string \<Rightarrow> string" where
  "strings_TrimSpace s =
     strings_Trim s [CHR 0x09, CHR 0x0A, CHR 0x0B, CHR 0x0C, CHR 0x0D, CHR '' '']"

subsection \<open>http.Header\<close>

text \<open>\<open>http.Header\<close> is \<open>map[string][]string\<close>. \<open>Get\<close> and \<open>Set\<close> canonicalise the key
  they are given; indexing the map does not.\<close>

type_synonym header = "string \<rightharpoonup> string list"

definition lowerLetters :: string where
  "lowerLetters = ''abcdefghijklmnopqrstuvwxyz''"

definition upperLetters :: string where
  "upperLetters = ''ABCDEFGHIJKLMNOPQRSTUVWXYZ''"

definition validHeaderFieldByte :: "char \<Rightarrow> bool" where
  "validHeaderFieldByte c =
     (c \<in> set (lowerLetters @ upperLetters @ ''0123456789'' @ ''!#$%&*+-.^_|~''
               @ [CHR 0x27, CHR 0x60]))"

definition toUpper :: "char \<Rightarrow> char" where
  "toUpper c = (case map_of (zip lowerLetters upperLetters) c of Some u \<Rightarrow> u | None \<Rightarrow> c)"

definition toLower :: "char \<Rightarrow> char" where
  "toLower c = (case map_of (zip upperLetters lowerLetters) c of Some l \<Rightarrow> l | None \<Rightarrow> c)"

text \<open>The second loop of \<open>textproto.canonicalMIMEHeaderKey\<close>: upper case for the first
  letter and for each letter after a dash, lower case for the others.\<close>

fun canonicalise :: "bool \<Rightarrow> string \<Rightarrow> string" where
  "canonicalise upper [] = []"
| "canonicalise upper (c # cs) =
     (let c' = (if upper then toUpper c else toLower c)
      in c' # canonicalise (c' = CHR ''-'') cs)"

text \<open>\<open>http.CanonicalHeaderKey\<close>: a key with a byte that is no token byte (a space, for
  one) is returned as it is.\<close>

definition CanonicalHeaderKey :: "string \<Rightarrow> string" where
  "CanonicalHeaderKey s =
     (if list_all validHeaderFieldByte s then canonicalise True s else s)"

definition Header_Get :: "header \<Rightarrow> string \<Rightarrow> string" where
  "Header_Get h key =
     (case h (CanonicalHeaderKey key) of
        None \<Rightarrow> []
      | Some [] \<Rightarrow> []
      | Some (v # _) \<Rightarrow> v)"

definition Header_Set :: "header \<Rightarrow> string \<Rightarrow> string \<Rightarrow> header" where
  "Header_Set h key v = h(CanonicalHeaderKey key \<mapsto> [v])"

section \<open>The in-memory backend (memcache.go)\<close>

text \<open>\<open>MemoryCache\<close> holds a Go map behind a mutex. The mutex orders concurrent callers
  and has no place in a sequential model. The map of a zero-value \<open>MemoryCache\<close> is nil
  (\<open>None\<close>): reading a nil map finds nothing, deleting from it does nothing, and assigning
  to it panics, which is the result \<open>None\<close> of \<open>MemoryCache_Set\<close>.\<close>

record MemoryCache =
  items :: "(string \<rightharpoonup> bytes) option"

definition NewMemoryCache :: MemoryCache where
  "NewMemoryCache = \<lparr>items = Some Map.empty\<rparr>"

definition MemoryCache_Get :: "MemoryCache \<Rightarrow> string \<Rightarrow> bytes \<times> bool" where
  "MemoryCache_Get mc key =
     (case items mc of
        None \<Rightarrow> ([], False)
      | Some m \<Rightarrow> (case m key of None \<Rightarrow> ([], False) | Some resp \<Rightarrow> (resp, True)))"

definition MemoryCache_Set :: "MemoryCache \<Rightarrow> string \<Rightarrow> bytes \<Rightarrow> int \<Rightarrow> MemoryCache option" where
  "MemoryCache_Set mc key resp ttl =
     (case items mc of
        None \<Rightarrow> None
      | Some m \<Rightarrow> Some (mc\<lparr>items := Some (m(key \<mapsto> resp))\<rparr>))"

definition MemoryCache_Delete :: "MemoryCache \<Rightarrow> string \<Rightarrow> MemoryCache" where
  "MemoryCache_Delete mc key =
     (case items mc of
        None \<Rightarrow> mc
      | Some m \<Rightarrow> mc\<lparr>items := Some (m(key := None))\<rparr>)"

text \<open>A cache as the package builds and uses it: \<open>NewMemoryCache\<close>, then any calls of
  \<open>Set\<close> and \<open>Delete\<close>.\<close>

datatype cacheOp = OpSet string bytes int | OpDelete string

fun applyOps :: "cacheOp list \<Rightarrow> MemoryCache \<Rightarrow> MemoryCache option" where
  "applyOps [] mc = Some mc"
| "applyOps (OpSet k b ttl # ops) mc =
     (case MemoryCache_Set mc k b ttl of None \<Rightarrow> None | Some mc' \<Rightarrow> applyOps ops mc')"
| "applyOps (OpDelete k # ops) mc = applyOps ops (MemoryCache_Delete mc k)"

section \<open>Requests and the cache key (unnamed/part_000)\<close>

text \<open>Of \<open>http.Request\<close> the package reads the method, the header and \<open>URL.String()\<close>.\<close>

record message =
  Header :: header

record request = message +
  Method :: string
  URL :: string

definition cacheKey :: "request \<Rightarrow> string" where
  "cacheKey req =
     (if Method req = ''GET'' then URL req
      else Method req @ '' '' @ URL req)"

section \<open>Cache-Control directives (memcache.go)\<close>

type_synonym cacheControl = "string \<rightharpoonup> string"

text \<open>The body of the loop of \<open>parseCacheControl\<close>, for one field of the split header.
  \<open>keyVal[0]\<close> and \<open>keyVal[1]\<close> exist whenever the field holds an \<open>=\<close> (lemma
  \<open>strings_Split_two_fields\<close>), so the index never panics and the last case is never
  taken.\<close>

definition parseCacheControl_part :: "cacheControl \<Rightarrow> string \<Rightarrow> cacheControl" where
  "parseCacheControl_part cc part0 =
     (let part = strings_Trim part0 '' '' in
      if part = [] then cc
      else if CHR ''='' \<in> set part then
        (case strings_Split part CHR ''='' of
           k # v # _ \<Rightarrow> cc(strings_Trim k '' '' \<mapsto> strings_Trim v '','')
         | _ \<Rightarrow> cc)
      else cc(part \<mapsto> []))"

definition parseCacheControl :: "header \<Rightarrow> cacheControl" where
  "parseCacheControl headers =
     foldl parseCacheControl_part Map.empty
       (strings_Split (Header_Get headers ''Cache-Control'') CHR '','')"

definition canStore :: "cacheControl \<Rightarrow> cacheControl \<Rightarrow> bool" where
  "canStore reqCacheControl respCacheControl =
     (if respCacheControl ''no-store'' \<noteq> None then False
      else if reqCacheControl ''no-store'' \<noteq> None then False
      else True)"

subsection \<open>The directive parser, said without the loop\<close>

text \<open>The tokens of a header value: its comma-separated fields, spaces trimmed, the empty
  ones dropped.\<close>

definition tokens :: "string \<Rightarrow> string list" where
  "tokens ccHeader =
     filter (\<lambda>t. t \<noteq> [])
       (map (\<lambda>p. strings_Trim p '' '') (strings_Split ccHeader CHR '',''))"

text \<open>The name of a token is what stands before its first \<open>=\<close>, spaces trimmed; its value
  is what stands between the first \<open>=\<close> and the second, or the end of the token when
  there is no second.\<close>

definition directiveName :: "string \<Rightarrow> string" where
  "directiveName t =
     (if CHR ''='' \<in> set t then strings_Trim (takeWhile (\<lambda>c. c \<noteq> CHR ''='') t) '' '' else t)"

definition directiveValue :: "string \<Rightarrow> string" where
  "directiveValue t =
     (if CHR ''='' \<in> set t
      then takeWhile (\<lambda>c. c \<noteq> CHR ''='') (drop 1 (dropWhile (\<lambda>c. c \<noteq> CHR ''='') t))
      else [])"

section \<open>The Cache interface (unnamed/part_000)\<close>

text \<open>\<open>CachedClient\<close> reaches its storage through the interface \<open>Cache\<close>. Its state
  here is the contents of the backend, and the three methods act on it as
  \<open>MemoryCache\<close>'s do on an allocated map (lemma \<open>MemoryCache_is_Cache\<close>).\<close>

type_synonym cache = "string \<rightharpoonup> bytes"

definition Cache_Get :: "cache \<Rightarrow> string \<Rightarrow> bytes \<times> bool" where
  "Cache_Get c key = (case c key of None \<Rightarrow> ([], False) | Some resp \<Rightarrow> (resp, True))"

definition Cache_Set :: "cache \<Rightarrow> string \<Rightarrow> bytes \<Rightarrow> int \<Rightarrow> cache" where
  "Cache_Set c key resp ttl = c(key \<mapsto> resp)"

definition Cache_Delete :: "cache \<Rightarrow> string \<Rightarrow> cache" where
  "Cache_Delete c key = c(key := None)"

section \<open>The streaming capture wrapper (io.go)\<close>

text \<open>An \<open>io.Reader\<close> returns \<open>io.EOF\<close>, another error, or none.\<close>

datatype ioError = EOF | ErrOther string

text \<open>The underlying \<open>ReadCloser\<close> is any state machine: \<open>R.Read(p)\<close>, from a state and
  \<open>len(p)\<close>, gives the bytes \<open>p[:n]\<close> it placed in \<open>p\<close>, its error, and its next state.\<close>

type_synonym 's ioReader = "'s \<Rightarrow> nat \<Rightarrow> (bytes \<times> ioError option) \<times> 's"

text \<open>\<open>cachingReadCloser\<close>: the state of \<open>R\<close>, the buffer \<open>buf\<close>, and for the handler
  \<open>OnEOF\<close>, whose effect lies outside the wrapper, the contents it has been called with,
  oldest first.\<close>

record 's cachingReadCloser =
  R :: 's
  buf :: bytes
  OnEOF :: "bytes list"

definition cachingReadCloser_Read ::
  "'s ioReader \<Rightarrow> 's cachingReadCloser \<Rightarrow> nat \<Rightarrow> (bytes \<times> ioError option) \<times> 's cachingReadCloser"
where
  "cachingReadCloser_Read rd r lenp =
     (case rd (R r) lenp of
        ((pn, err), s') \<Rightarrow>
          (let buf' = buf r @ pn;
               called = (if err = Some EOF then OnEOF r @ [buf'] else OnEOF r)
           in ((pn, err), \<lparr>R = s', buf = buf', OnEOF = called\<rparr>)))"

text \<open>A caller's sequence of reads, each with the length of the buffer it passes: the
  results it gets and the wrapper after the last one.\<close>

fun reads ::
  "'s ioReader \<Rightarrow> 's cachingReadCloser \<Rightarrow> nat list
     \<Rightarrow> (bytes \<times> ioError option) list \<times> 's cachingReadCloser"
where
  "reads rd r [] = ([], r)"
| "reads rd r (lenp # lens) =
     (case cachingReadCloser_Read rd r lenp of
        (res, r1) \<Rightarrow> (case reads rd r1 lens of (ress, r2) \<Rightarrow> (res # ress, r2)))"

text \<open>The reads, counted from 1, whose result is \<open>io.EOF\<close>.\<close>

definition eofReads :: "(bytes \<times> ioError option) list \<Rightarrow> nat list" where
  "eofReads ress = map Suc (filter (\<lambda>i. snd (ress ! i) = Some EOF) [0..<length ress])"

text \<open>A body of three bytes whose reader, like \<open>bytes.Reader\<close> and the bodies of
  \<open>net/http\<close>, reports \<open>io.EOF\<close> on every read once it is drained. Its state is the
  number of bytes already delivered.\<close>

definition abcReader :: "nat ioReader" where
  "abcReader s lenp =
     (if s < 3 \<and> 0 < lenp then ((take lenp (drop s ''abc''), None), s + min lenp (3 - s))
      else if s < 3 then (([], None), s)
      else (([], Some EOF), s))"

section \<open>Responses, errors and the parameters (header.go, io.go)\<close>

text \<open>A response body is a stream. \<open>Stream b\<close> delivers the bytes \<open>b\<close> and then
  \<open>io.EOF\<close>; \<open>Caching inner key\<close> is the \<open>cachingReadCloser\<close> that \<open>executeRequest\<close> puts
  around the body \<open>inner\<close>, its \<open>OnEOF\<close> handler bound to the cache key \<open>key\<close>.\<close>

datatype body = Stream bytes | Caching body string

fun bodyBytes :: "body \<Rightarrow> bytes" where
  "bodyBytes (Stream b) = b"
| "bodyBytes (Caching inner key) = bodyBytes inner"

record response = message +
  StatusCode :: int
  Body :: body

datatype error =
    ErrNoDateHeader
  | ErrTimeParse
  | ErrReadResponse
  | ErrTimeoutResponse
  | ErrTransport string

text \<open>\<open>time.Duration\<close> is an \<open>int64\<close> of nanoseconds: \<open>+\<close> and \<open>-\<close> wrap, the comparisons
  are the signed ones. A \<open>time.Time\<close> is only ever handed on to the clock and to
  \<open>Time.Sub\<close>; it is an integer here.\<close>

type_synonym Duration = "64 word"
type_synonym Time = int

text \<open>What the package takes from outside: the injected clock (\<open>clock.since\<close>),
  \<open>time.ParseDuration\<close>, \<open>time.Parse(time.RFC1123, _)\<close> and \<open>Time.Sub\<close>, and the wire codec
  \<open>http.ReadResponse\<close> and \<open>httputil.DumpResponse\<close>. A parser or the codec reporting an
  error is the result \<open>None\<close>.\<close>

record env =
  since :: "Time \<Rightarrow> Duration"
  ParseDuration :: "string \<Rightarrow> Duration option"
  ParseRFC1123 :: "string \<Rightarrow> Time option"
  Sub :: "Time \<Rightarrow> Time \<Rightarrow> Duration"
  ReadResponse :: "bytes \<Rightarrow> request \<Rightarrow> response option"
  DumpResponse :: "response \<Rightarrow> bytes option"

definition headerAllCommaSepValues :: "header \<Rightarrow> string \<Rightarrow> string list" where
  "headerAllCommaSepValues headers name =
     concat (map (\<lambda>val. map strings_TrimSpace (strings_Split val CHR '',''))
       (case headers (CanonicalHeaderKey name) of None \<Rightarrow> [] | Some vals \<Rightarrow> vals))"

definition Date :: "env \<Rightarrow> header \<Rightarrow> error + Time" where
  "Date env respHeaders =
     (let dateHeader = Header_Get respHeaders ''date'' in
      if dateHeader = [] then Inl ErrNoDateHeader
      else (case ParseRFC1123 env dateHeader of
              None \<Rightarrow> Inl ErrTimeParse
            | Some date \<Rightarrow> Inr date))"

text \<open>\<open>getEndToEndHeaders\<close> returns the keys of the response header outside the
  hop-by-hop set, in the order the Go map yields them. Its one caller copies the value
  of each such key, which does not depend on the order, so the list is given by its
  membership test.\<close>

definition hopByHopHeaders :: "header \<Rightarrow> string list" where
  "hopByHopHeaders respHeaders =
     [''Connection'', ''Keep-Alive'', ''Proxy-Authenticate'', ''Proxy-Authorization'',
      ''Te'', ''Trailers'', ''Transfer-Encoding'', ''Upgrade'']
     @ map CanonicalHeaderKey
         (filter (\<lambda>extra. strings_Trim extra '' '' \<noteq> [])
            (strings_Split (Header_Get respHeaders ''connection'') CHR '',''))"

definition getEndToEndHeaders :: "header \<Rightarrow> string \<Rightarrow> bool" where
  "getEndToEndHeaders respHeaders respHeader =
     (respHeaders respHeader \<noteq> None \<and> respHeader \<notin> set (hopByHopHeaders respHeaders))"

section \<open>Stale-if-error and freshness (memcache.go)\<close>

text \<open>One of the two \<open>stale-if-error\<close> blocks of \<open>canStaleOnError\<close>, which differ in the
  mapping they read: \<open>Inl b\<close> is \<open>return b\<close>, \<open>Inr lifetime\<close> goes on with that lifetime.\<close>

definition staleIfError :: "env \<Rightarrow> cacheControl \<Rightarrow> Duration \<Rightarrow> bool + Duration" where
  "staleIfError env cc lifetime =
     (case cc ''stale-if-error'' of
        None \<Rightarrow> Inr lifetime
      | Some staleMaxAge \<Rightarrow>
          if staleMaxAge \<noteq> [] then
            (case ParseDuration env (staleMaxAge @ ''s'') of
               None \<Rightarrow> Inl False
             | Some d \<Rightarrow> Inr d)
          else Inl True)"

definition canStaleOnError :: "env \<Rightarrow> header \<Rightarrow> header \<Rightarrow> bool" where
  "canStaleOnError env respHeaders reqHeaders =
     (let respCacheControl = parseCacheControl respHeaders;
          reqCacheControl = parseCacheControl reqHeaders
      in case staleIfError env respCacheControl (- 1) of
           Inl b \<Rightarrow> b
         | Inr lifetime1 \<Rightarrow>
             (case staleIfError env reqCacheControl lifetime1 of
                Inl b \<Rightarrow> b
              | Inr lifetime \<Rightarrow>
                  if 0 \<le>s lifetime then
                    (case Date env respHeaders of
                       Inl err \<Rightarrow> False
                     | Inr date \<Rightarrow>
                         (let currentAge = since env date in
                          if currentAge <s lifetime then True else False))
                  else False))"

datatype entryFreshness = stale | fresh | transparent

text \<open>\<open>getFreshness\<close>; the calls of \<open>cc.log\<close> print when \<open>Debug\<close> is set and change
  nothing else.\<close>

definition getFreshness :: "env \<Rightarrow> request \<Rightarrow> header \<Rightarrow> entryFreshness" where
  "getFreshness env req respHeaders =
     (let reqHeaders = Header req;
          respCacheControl = parseCacheControl respHeaders;
          reqCacheControl = parseCacheControl reqHeaders
      in if reqCacheControl ''no-cache'' \<noteq> None then transparent
         else if respCacheControl ''no-cache'' \<noteq> None then stale
         else if reqCacheControl ''only-if-cached'' \<noteq> None then fresh
         else
           (case Date env respHeaders of
              Inl err \<Rightarrow> stale
            | Inr date \<Rightarrow>
                (let currentAge0 = since env date;
                     lifetime0 =
                       (case respCacheControl ''max-age'' of
                          Some maxAge \<Rightarrow>
                            (case ParseDuration env (maxAge @ ''s'') of
                               None \<Rightarrow> 0
                             | Some d \<Rightarrow> d)
                        | None \<Rightarrow>
                            (let expiresHeader = Header_Get respHeaders ''Expires'' in
                             if expiresHeader \<noteq> [] then
                               (case ParseRFC1123 env expiresHeader of
                                  None \<Rightarrow> 0
                                | Some expires \<Rightarrow> Sub env expires date)
                             else 0));
                     lifetime =
                       (case reqCacheControl ''max-age'' of
                          Some maxAge \<Rightarrow>
                            (case ParseDuration env (maxAge @ ''s'') of
                               None \<Rightarrow> 0
                             | Some d \<Rightarrow> d)
                        | None \<Rightarrow> lifetime0);
                     currentAge1 =
                       (case reqCacheControl ''min-fresh'' of
                          Some minfresh \<Rightarrow>
                            (case ParseDuration env (minfresh @ ''s'') of
                               None \<Rightarrow> currentAge0
                             | Some minfreshDuration \<Rightarrow> currentAge0 + minfreshDuration)
                        | None \<Rightarrow> currentAge0)
                 in case reqCacheControl ''max-stale'' of
                      Some maxstale \<Rightarrow>
                        if maxstale = [] then fresh
                        else
                          (let currentAge =
                                 (case ParseDuration env (maxstale @ ''s'') of
                                    None \<Rightarrow> currentAge1
                                  | Some maxstaleDuration \<Rightarrow> currentAge1 - maxstaleDuration)
                           in if currentAge <s lifetime then fresh else stale)
                    | None \<Rightarrow> if currentAge1 <s lifetime then fresh else stale)))"

subsection \<open>The freshness rules as the specification orders them\<close>





subsection \<open>The stale-if-error directive of one side\<close>

datatype directive = Absent | NoValue | Malformed | Seconds Duration

definition staleIfErrorDirective :: "env \<Rightarrow> header \<Rightarrow> directive" where
  "staleIfErrorDirective env headers =
     (case parseCacheControl headers ''stale-if-error'' of
        None \<Rightarrow> Absent
      | Some v \<Rightarrow>
          if v = [] then NoValue
          else (case ParseDuration env (v @ ''s'') of
                  None \<Rightarrow> Malformed
                | Some d \<Rightarrow> Seconds d))"

section \<open>The request pipeline (unnamed/part_000)\<close>

record CacheOptions =
  TTL :: int
  MarkCachedResponses :: bool
  Debug :: bool

text \<open>\<open>CachedClient\<close>. \<open>Transport.RoundTrip\<close> answers a request with a response or with
  an error. The field \<open>Cache\<close> is the state that \<open>executeRequest\<close> takes and returns.\<close>

record CachedClient =
  Transport :: "request \<Rightarrow> error + response"
  Options :: CacheOptions

text \<open>\<open>CachedResponse\<close>: \<open>Inr None\<close> is the pair \<open>(nil, nil)\<close> of a key that is not
  stored, \<open>Inl\<close> the error of \<open>http.ReadResponse\<close> on the stored bytes.\<close>

definition CachedResponse :: "env \<Rightarrow> cache \<Rightarrow> request \<Rightarrow> error + response option" where
  "CachedResponse env c req =
     (case Cache_Get c (cacheKey req) of
        (cachedVal, ok) \<Rightarrow>
          if \<not> ok then Inr None
          else (case ReadResponse env cachedVal req of
                  None \<Rightarrow> Inl ErrReadResponse
                | Some resp \<Rightarrow> Inr (Some resp)))"

definition varyMatches :: "response \<Rightarrow> request \<Rightarrow> bool" where
  "varyMatches cachedResp req =
     list_all
       (\<lambda>header0.
          (let header = CanonicalHeaderKey header0 in
           \<not> (header \<noteq> [] \<and>
              Header_Get (Header req) header
                \<noteq> Header_Get (Header cachedResp) (''X-Varied-'' @ header))))
       (headerAllCommaSepValues (Header cachedResp) ''vary'')"

definition CRLF :: string where
  "CRLF = [CHR 0x0D, CHR 0x0A]"

definition newGatewayTimeoutResponse :: "env \<Rightarrow> request \<Rightarrow> error + response" where
  "newGatewayTimeoutResponse env req =
     (case ReadResponse env (''HTTP/1.1 504 Gateway Timeout'' @ CRLF @ CRLF) req of
        None \<Rightarrow> Inl ErrTimeoutResponse
      | Some resp \<Rightarrow> Inr resp)"

text \<open>\<open>cloneRequest\<close> copies the struct and its header map, so that setting a header on
  the copy leaves the caller's request as it was. Values are not shared here, and the
  copy is the value.\<close>

definition cloneRequest :: "request \<Rightarrow> request" where
  "cloneRequest r = r\<lparr>Header := (\<lambda>k. Header r k)\<rparr>"

text \<open>Lines 156 to 177 of \<open>executeRequest\<close>, for a stale entry: the request that goes to
  the transport. \<open>req2\<close> is \<open>None\<close> while it is nil.\<close>

definition addValidators :: "response \<Rightarrow> request \<Rightarrow> request" where
  "addValidators cachedResp req =
     (let etag = Header_Get (Header cachedResp) ''etag'';
          req2 =
            (if etag \<noteq> [] \<and> Header_Get (Header req) ''etag'' = [] then
               (let r = cloneRequest req in
                Some (r\<lparr>Header := Header_Set (Header r) ''if-none-match'' etag\<rparr>))
             else None);
          lastModified = Header_Get (Header cachedResp) ''last-modified'';
          req2' =
            (if lastModified \<noteq> [] \<and> Header_Get (Header req) ''last-modified'' = [] then
               (let r = (case req2 of None \<Rightarrow> cloneRequest req | Some r2 \<Rightarrow> r2) in
                Some (r\<lparr>Header := Header_Set (Header r) ''if-modified-since'' lastModified\<rparr>))
             else req2)
      in case req2' of None \<Rightarrow> req | Some r2 \<Rightarrow> r2)"

text \<open>The \<open>return\<close> statement that ends a call of \<open>executeRequest\<close>: the fresh cached
  response (line 153), the cached response under stale-if-error (line 199), the
  transport's error (lines 207 and 222), the error of the timeout response (line 216),
  or the last line (264), after the store-or-evict step.\<close>

datatype exit = FreshHit | StaleOnError | TransportFailed | TimeoutFailed | Completed

text \<open>What a call leaves: the pair it returns, the storage, the requests it gave to
  the transport, and the \<open>return\<close> it took.\<close>

record outcome =
  Result :: "error + response"
  Cache :: cache
  Sent :: "request list"
  Exit :: exit

text \<open>The \<open>OnEOF\<close> closure of lines 242 to 250, called with the bytes \<open>r\<close> read from the
  body: it dumps the response it captured, with \<open>r\<close> as body, and stores the bytes.\<close>

definition OnEOF_store ::
  "env \<Rightarrow> CachedClient \<Rightarrow> string \<Rightarrow> response \<Rightarrow> cache \<Rightarrow> bytes \<Rightarrow> cache"
where
  "OnEOF_store env cc key resp c r =
     (case DumpResponse env (resp\<lparr>Body := Stream r\<rparr>) of
        None \<Rightarrow> c
      | Some respBytes \<Rightarrow> Cache_Set c key respBytes (TTL (Options cc)))"

text \<open>The loop of lines 229 to 236: the headers of the response with the \<open>X-Varied-\<close>
  echo of each header that \<open>Vary\<close> lists and the request carries.\<close>

definition variedHeader :: "request \<Rightarrow> header \<Rightarrow> string \<Rightarrow> header" where
  "variedHeader req h varyKey0 =
     (let varyKey = CanonicalHeaderKey varyKey0;
          fakeHeader = ''X-Varied-'' @ varyKey;
          reqValue = Header_Get (Header req) varyKey
      in if reqValue \<noteq> [] then Header_Set h fakeHeader reqValue else h)"

text \<open>Lines 227 to 264, the store-or-evict step and the last \<open>return\<close>;
  \<open>isCacheable\<close> is the value of the local variable \<open>cacheable\<close>.\<close>

definition storeOrEvict ::
  "env \<Rightarrow> CachedClient \<Rightarrow> cache \<Rightarrow> string \<Rightarrow> bool \<Rightarrow> request \<Rightarrow> response \<Rightarrow> request list
     \<Rightarrow> outcome"
where
  "storeOrEvict env cc c key isCacheable req resp sent =
     (if isCacheable \<and> canStore (parseCacheControl (Header req)) (parseCacheControl (Header resp))
      then
        (let resp1 = resp\<lparr>Header :=
                       foldl (variedHeader req) (Header resp)
                         (headerAllCommaSepValues (Header resp) ''vary'')\<rparr>
         in if Method req = ''GET'' then
              \<lparr>Result = Inr (resp1\<lparr>Body := Caching (Body resp1) key\<rparr>),
               Cache = c, Sent = sent, Exit = Completed\<rparr>
            else
              (case DumpResponse env resp1 of
                 None \<Rightarrow> \<lparr>Result = Inr resp1, Cache = c, Sent = sent, Exit = Completed\<rparr>
               | Some respBytes \<Rightarrow>
                   \<lparr>Result = Inr resp1,
                    Cache = Cache_Set c key respBytes (TTL (Options cc)),
                    Sent = sent, Exit = Completed\<rparr>))
      else
        \<lparr>Result = Inr resp, Cache = Cache_Delete c key, Sent = sent, Exit = Completed\<rparr>)"

text \<open>Lines 180 to 209, with a cached response at hand: the call of the transport, the
  merge of a 304, the fall back to the stale entry, the eviction.\<close>

definition roundTripCached ::
  "env \<Rightarrow> CachedClient \<Rightarrow> cache \<Rightarrow> string \<Rightarrow> response \<Rightarrow> request \<Rightarrow> outcome"
where
  "roundTripCached env cc c key cachedResp req =
     (case Transport cc req of
        Inr resp \<Rightarrow>
          if Method req = ''GET'' \<and> StatusCode resp = 304 then
            storeOrEvict env cc c key True req
              (cachedResp\<lparr>Header :=
                 (\<lambda>header. if getEndToEndHeaders (Header resp) header
                            then Header resp header
                            else Header cachedResp header)\<rparr>)
              [req]
          else if 500 \<le> StatusCode resp \<and> Method req = ''GET''
                  \<and> canStaleOnError env (Header cachedResp) (Header req) then
            \<lparr>Result = Inr cachedResp, Cache = c, Sent = [req], Exit = StaleOnError\<rparr>
          else
            storeOrEvict env cc
              (if StatusCode resp \<noteq> 200 then Cache_Delete c key else c)
              key True req resp [req]
      | Inl err \<Rightarrow>
          if Method req = ''GET'' \<and> canStaleOnError env (Header cachedResp) (Header req) then
            \<lparr>Result = Inr cachedResp, Cache = c, Sent = [req], Exit = StaleOnError\<rparr>
          else
            \<lparr>Result = Inl err, Cache = Cache_Delete c key, Sent = [req],
             Exit = TransportFailed\<rparr>)"

text \<open>The local variable \<open>cacheable\<close> of \<open>executeRequest\<close> (line 124).\<close>

definition cacheable :: "request \<Rightarrow> bool" where
  "cacheable req =
     ((Method req = ''GET'' \<or> Method req = ''HEAD'') \<and> Header_Get (Header req) ''range'' = [])"

text \<open>\<open>executeRequest\<close>, which \<open>Do\<close> and \<open>RoundTrip\<close> call. The calls of \<open>cc.log\<close> print
  when \<open>Debug\<close> is set and change nothing else.\<close>

definition executeRequest :: "env \<Rightarrow> CachedClient \<Rightarrow> cache \<Rightarrow> request \<Rightarrow> outcome" where
  "executeRequest env cc c0 req =
     (let key = cacheKey req;
          cached = (if cacheable req then CachedResponse env c0 req else Inr None);
          c = (if cacheable req then c0 else Cache_Delete c0 key)
      in case cached of
           Inr (Some cachedResp0) \<Rightarrow>
             (let cachedResp =
                    (if MarkCachedResponses (Options cc)
                     then cachedResp0\<lparr>Header := Header_Set (Header cachedResp0) ''X-From-Cache'' ''1''\<rparr>
                     else cachedResp0)
              in if varyMatches cachedResp req then
                   (let freshness = getFreshness env req (Header cachedResp) in
                    if freshness = fresh then
                      \<lparr>Result = Inr cachedResp, Cache = c, Sent = [], Exit = FreshHit\<rparr>
                    else if freshness = stale then
                      roundTripCached env cc c key cachedResp (addValidators cachedResp req)
                    else roundTripCached env cc c key cachedResp req)
                 else roundTripCached env cc c key cachedResp req)
         | _ \<Rightarrow>
             (let reqCacheControl = parseCacheControl (Header req) in
              if reqCacheControl ''only-if-cached'' \<noteq> None then
                (case newGatewayTimeoutResponse env req of
                   Inl err \<Rightarrow> \<lparr>Result = Inl err, Cache = c, Sent = [], Exit = TimeoutFailed\<rparr>
                 | Inr resp \<Rightarrow> storeOrEvict env cc c key (cacheable req) req resp [])
              else
                (case Transport cc req of
                   Inl err \<Rightarrow>
                     \<lparr>Result = Inl err, Cache = c, Sent = [req], Exit = TransportFailed\<rparr>
                 | Inr resp \<Rightarrow> storeOrEvict env cc c key (cacheable req) req resp [req])))"

text \<open>The caller reads the body of the response it got up to \<open>io.EOF\<close>: a body that
  \<open>executeRequest\<close> wrapped calls its \<open>OnEOF\<close> handler with all the bytes of the body.\<close>

definition drainBody :: "env \<Rightarrow> CachedClient \<Rightarrow> cache \<Rightarrow> response \<Rightarrow> cache" where
  "drainBody env cc c resp =
     (case Body resp of
        Stream b \<Rightarrow> c
      | Caching inner key \<Rightarrow> OnEOF_store env cc key resp c (bodyBytes inner))"

section \<open>A test double for the parameters\<close>

text \<open>The closed examples below run the package against \<open>testEnv\<close>. Its clock stands
  at 00:02:00 on 1 January 1970; instants are seconds since 00:00:00 of that day.
  \<open>testParseDuration\<close> reads a decimal number of seconds followed by \<open>s\<close> and rejects
  everything else; on the strings of the examples (decimal numbers, the empty value,
  words) it gives what \<open>time.ParseDuration\<close> gives.\<close>

definition digitValue :: "char \<Rightarrow> int option" where
  "digitValue c = map_of (zip ''0123456789'' [0, 1, 2, 3, 4, 5, 6, 7, 8, 9]) c"

fun decimal :: "int \<Rightarrow> string \<Rightarrow> int option" where
  "decimal acc [] = Some acc"
| "decimal acc (c # cs) =
     (case digitValue c of None \<Rightarrow> None | Some d \<Rightarrow> decimal (10 * acc + d) cs)"

definition testParseDuration :: "string \<Rightarrow> Duration option" where
  "testParseDuration s =
     (if length s < 2 then None
      else if last s = CHR ''s'' then
        (case decimal 0 (butlast s) of
           None \<Rightarrow> None
         | Some n \<Rightarrow> if n * 1000000000 < 2 ^ 63 then Some (of_int (n * 1000000000)) else None)
      else None)"

definition testParseRFC1123 :: "string \<Rightarrow> Time option" where
  "testParseRFC1123 s =
     map_of [(''Thu, 01 Jan 1970 00:00:00 GMT'', 0),
             (''Thu, 01 Jan 1970 00:01:00 GMT'', 60),
             (''Thu, 01 Jan 1970 01:00:00 GMT'', 3600)] s"

text \<open>\<open>Time.Sub\<close> stops at the largest and the smallest \<open>Duration\<close>.\<close>

definition testSub :: "Time \<Rightarrow> Time \<Rightarrow> Duration" where
  "testSub t u =
     (let d = (t - u) * 1000000000 in
      if 2 ^ 63 \<le> d then of_int (2 ^ 63 - 1)
      else if d < - (2 ^ 63) then of_int (- (2 ^ 63))
      else of_int d)"

text \<open>The codec of the examples writes the status line, the values of the header keys
  the examples use, in the order of the keys, and the body; it reads back what it wrote
  for the stored responses of the examples, and the bare status line of the timeout
  response.\<close>

definition statusLine :: "int \<Rightarrow> string" where
  "statusLine code =
     ''HTTP/1.1 '' @
       (if code = 200 then ''200 OK''
        else if code = 304 then ''304 Not Modified''
        else if code = 404 then ''404 Not Found''
        else if code = 504 then ''504 Gateway Timeout''
        else ''500 Internal Server Error'')"

definition headerLines :: "header \<Rightarrow> string" where
  "headerLines h =
     concat (map (\<lambda>k. concat (map (\<lambda>v. k @ '': '' @ v @ CRLF)
                                  (case h k of None \<Rightarrow> [] | Some vs \<Rightarrow> vs)))
       [''Cache-Control'', ''Date'', ''Etag'', ''Vary'', ''X-Varied-Accept-Language''])"

definition testDumpResponse :: "response \<Rightarrow> bytes option" where
  "testDumpResponse resp =
     Some (statusLine (StatusCode resp) @ CRLF @ headerLines (Header resp) @ CRLF
           @ bodyBytes (Body resp))"

definition freshEntry :: response where
  "freshEntry =
     \<lparr>Header = [''Cache-Control'' \<mapsto> [''max-age=3600''],
                 ''Date'' \<mapsto> [''Thu, 01 Jan 1970 00:00:00 GMT'']],
      StatusCode = 200, Body = Stream ''hello''\<rparr>"

definition staleEntry :: response where
  "staleEntry =
     \<lparr>Header = [''Cache-Control'' \<mapsto> [''max-age=60''],
                 ''Date'' \<mapsto> [''Thu, 01 Jan 1970 00:00:00 GMT''],
                 ''Etag'' \<mapsto> [''v1'']],
      StatusCode = 200, Body = Stream ''hello''\<rparr>"

definition variedEntry :: response where
  "variedEntry =
     \<lparr>Header = [''Cache-Control'' \<mapsto> [''max-age=3600''],
                 ''Date'' \<mapsto> [''Thu, 01 Jan 1970 00:00:00 GMT''],
                 ''Vary'' \<mapsto> [''Accept-Language''],
                 ''X-Varied-Accept-Language'' \<mapsto> [''en'']],
      StatusCode = 200, Body = Stream ''hello''\<rparr>"

definition gatewayTimeout :: response where
  "gatewayTimeout = \<lparr>Header = Map.empty, StatusCode = 504, Body = Stream []\<rparr>"

definition bytesOf :: "response \<Rightarrow> bytes" where
  "bytesOf resp = (case testDumpResponse resp of None \<Rightarrow> [] | Some b \<Rightarrow> b)"

definition testReadResponse :: "bytes \<Rightarrow> request \<Rightarrow> response option" where
  "testReadResponse b req =
     map_of [(''HTTP/1.1 504 Gateway Timeout'' @ CRLF @ CRLF, gatewayTimeout),
             (bytesOf freshEntry, freshEntry),
             (bytesOf staleEntry, staleEntry),
             (bytesOf variedEntry, variedEntry)] b"

definition testEnv :: env where
  "testEnv =
     \<lparr>since = (\<lambda>t. testSub 120 t),
      ParseDuration = testParseDuration,
      ParseRFC1123 = testParseRFC1123,
      Sub = testSub,
      ReadResponse = testReadResponse,
      DumpResponse = testDumpResponse\<rparr>"

text \<open>An origin that has nothing under the URL: every request is answered 404 with an
  empty body. And one that answers 200 with a body.\<close>

definition notFound :: response where
  "notFound = \<lparr>Header = Map.empty, StatusCode = 404, Body = Stream []\<rparr>"

definition okResponse :: response where
  "okResponse =
     \<lparr>Header = [''Date'' \<mapsto> [''Thu, 01 Jan 1970 00:01:00 GMT'']],
      StatusCode = 200, Body = Stream ''world''\<rparr>"

definition missingClient :: CachedClient where
  "missingClient =
     \<lparr>Transport = (\<lambda>req. Inr notFound),
      Options = \<lparr>TTL = 0, MarkCachedResponses = False, Debug = False\<rparr>\<rparr>"

definition okClient :: CachedClient where
  "okClient =
     \<lparr>Transport = (\<lambda>req. Inr okResponse),
      Options = \<lparr>TTL = 0, MarkCachedResponses = False, Debug = False\<rparr>\<rparr>"

text \<open>A body as the transport or the codec hands it over, with no capture around it;
  and the status code of the response a call returned.\<close>

definition plainBody :: "response \<Rightarrow> bool" where
  "plainBody resp = (case Body resp of Stream b \<Rightarrow> True | Caching inner key \<Rightarrow> False)"

definition returnedStatus :: "outcome \<Rightarrow> int option" where
  "returnedStatus out = (case Result out of Inl err \<Rightarrow> None | Inr resp \<Rightarrow> Some (StatusCode resp))"

definition exampleURL :: string where
  "exampleURL = ''http://example.com/a''"

text \<open>The storage once the caller has read the body of the response it got.\<close>

definition afterBodyRead :: "env \<Rightarrow> CachedClient \<Rightarrow> outcome \<Rightarrow> cache" where
  "afterBodyRead env cc out =
     (case Result out of
        Inl err \<Rightarrow> Cache out
      | Inr resp \<Rightarrow> drainBody env cc (Cache out) resp)"

text \<open>The requests of the examples.\<close>

definition getRequest :: request where
  "getRequest = \<lparr>Header = Map.empty, Method = ''GET'', URL = exampleURL\<rparr>"

definition headRequest :: request where
  "headRequest = \<lparr>Header = Map.empty, Method = ''HEAD'', URL = exampleURL\<rparr>"

definition noStoreRequest :: request where
  "noStoreRequest =
     \<lparr>Header = [''Cache-Control'' \<mapsto> [''no-store'']], Method = ''GET'', URL = exampleURL\<rparr>"



definition etagRequest :: request where
  "etagRequest = \<lparr>Header = [''Etag'' \<mapsto> [''x'']], Method = ''GET'', URL = exampleURL\<rparr>"

section \<open>The in-memory backend: what was read is what was written\<close>

lemma applyOps_allocated:
  "items mc \<noteq> None \<Longrightarrow> \<exists>mc'. applyOps ops mc = Some mc' \<and> items mc' \<noteq> None"
proof (induction ops arbitrary: mc)
  case Nil
  then show ?case by simp
next
  case (Cons op ops)
  then obtain m where m: "items mc = Some m" by auto
  show ?case
  proof (cases op)
    case (OpSet k b ttl)
    have "items (mc\<lparr>items := Some (m(k \<mapsto> b))\<rparr>) \<noteq> None" by simp
    from Cons.IH [OF this] show ?thesis
      using OpSet m by (simp add: MemoryCache_Set_def)
  next
    case (OpDelete k)
    have "items (MemoryCache_Delete mc k) \<noteq> None"
      using m by (simp add: MemoryCache_Delete_def)
    from Cons.IH [OF this] show ?thesis
      using OpDelete by simp
  qed
qed

text \<open>
  Claim C10. On a cache made by \<open>NewMemoryCache\<close> and used through any sequence of
  \<open>Set\<close> and \<open>Delete\<close> calls, \<open>Set(key, resp, ttl)\<close> does not panic and a following
  \<open>Get(key)\<close> returns exactly \<open>resp\<close> with \<open>ok = true\<close>, whatever \<open>ttl\<close> is: the state
  after \<open>Set\<close> is the same for every \<open>ttl\<close>, so no later \<open>Get\<close> can tell two values of
  \<open>ttl\<close> apart.
\<close>

theorem MemoryCache_Set_Get:
  "\<exists>mc mc'. applyOps ops NewMemoryCache = Some mc
     \<and> MemoryCache_Set mc key resp ttl = Some mc'
     \<and> MemoryCache_Get mc' key = (resp, True)
     \<and> MemoryCache_Set mc key resp ttl' = Some mc'"
proof -
  have "items NewMemoryCache \<noteq> None" by (simp add: NewMemoryCache_def)
  from applyOps_allocated [OF this]
  obtain mc m where mc: "applyOps ops NewMemoryCache = Some mc" "items mc = Some m"
    by fastforce
  let ?mc' = "mc\<lparr>items := Some (m(key \<mapsto> resp))\<rparr>"
  have "MemoryCache_Set mc key resp ttl = Some ?mc'"
    and "MemoryCache_Set mc key resp ttl' = Some ?mc'"
    and "MemoryCache_Get ?mc' key = (resp, True)"
    using mc(2) by (simp_all add: MemoryCache_Set_def MemoryCache_Get_def)
  with mc(1) show ?thesis by blast
qed

lemma MemoryCache_is_Cache:
  assumes "items mc = Some m"
  shows "MemoryCache_Get mc key = Cache_Get m key"
    and "MemoryCache_Set mc key resp ttl = Some (mc\<lparr>items := Some (Cache_Set m key resp ttl)\<rparr>)"
    and "MemoryCache_Delete mc key = mc\<lparr>items := Some (Cache_Delete m key)\<rparr>"
  using assms
  by (simp_all add: MemoryCache_Get_def MemoryCache_Set_def MemoryCache_Delete_def
      Cache_Get_def Cache_Set_def Cache_Delete_def)

section \<open>The cache key\<close>

text \<open>
  Claim C8, as the claim states it, at a \<open>HEAD\<close> request: the key is not the URL alone,
  the method is prefixed to it as for every method other than \<open>GET\<close>.
\<close>

theorem cacheKey_HEAD_counterexample:
  "cacheKey \<lparr>Header = Map.empty, Method = ''HEAD'', URL = ''http://example.com/a''\<rparr>
     = ''HEAD http://example.com/a''
   \<and> cacheKey \<lparr>Header = Map.empty, Method = ''HEAD'', URL = ''http://example.com/a''\<rparr>
     \<noteq> URL \<lparr>Header = Map.empty, Method = ''HEAD'', URL = ''http://example.com/a''\<rparr>"
  by (simp add: cacheKey_def)

text \<open>
  Claim C8, amended. The cache key is the URL alone when the method is \<open>GET\<close>, and the
  method, a space and the URL for every other method, \<open>HEAD\<close> included. Two requests are
  cache-equivalent, that is they read the same entry of every storage, if and only if
  their keys are equal; for two requests of one method that is when their URLs are equal.
\<close>

theorem cacheKey_GET_alone:
  "(Method req = ''GET'' \<longrightarrow> cacheKey req = URL req)
   \<and> (Method req \<noteq> ''GET'' \<longrightarrow> cacheKey req = Method req @ '' '' @ URL req)
   \<and> ((\<forall>c. Cache_Get c (cacheKey r1) = Cache_Get c (cacheKey r2)) = (cacheKey r1 = cacheKey r2))
   \<and> (Method r1 = Method r2 \<longrightarrow> (cacheKey r1 = cacheKey r2) = (URL r1 = URL r2))"
proof -
  have "cacheKey r1 = cacheKey r2"
    if "\<forall>c. Cache_Get c (cacheKey r1) = Cache_Get c (cacheKey r2)"
  proof (rule ccontr)
    assume ne: "cacheKey r1 \<noteq> cacheKey r2"
    let ?c = "[cacheKey r1 \<mapsto> ''x''] :: cache"
    have "Cache_Get ?c (cacheKey r1) = (''x'', True)"
      and "Cache_Get ?c (cacheKey r2) = ([], False)"
      using ne by (simp_all add: Cache_Get_def)
    with that show False by simp
  qed
  then have "(\<forall>c. Cache_Get c (cacheKey r1) = Cache_Get c (cacheKey r2))
               = (cacheKey r1 = cacheKey r2)"
    by auto
  then show ?thesis
    by (simp add: cacheKey_def)
qed

theorem cacheKey_GET_alone_witness:
  "cacheKey \<lparr>Header = Map.empty, Method = ''GET'', URL = ''http://example.com/a''\<rparr>
     = ''http://example.com/a''
   \<and> cacheKey \<lparr>Header = Map.empty, Method = ''POST'', URL = ''http://example.com/a''\<rparr>
     = ''POST http://example.com/a''
   \<and> cacheKey \<lparr>Header = Map.empty, Method = ''HEAD'', URL = ''http://example.com/a''\<rparr>
     \<noteq> cacheKey \<lparr>Header = Map.empty, Method = ''HEAD'', URL = ''http://example.com/b''\<rparr>"
  using cacheKey_GET_alone
          [of "\<lparr>Header = Map.empty, Method = ''GET'', URL = ''http://example.com/a''\<rparr>"
              "\<lparr>Header = Map.empty, Method = ''HEAD'', URL = ''http://example.com/a''\<rparr>"
              "\<lparr>Header = Map.empty, Method = ''HEAD'', URL = ''http://example.com/b''\<rparr>"]
        cacheKey_GET_alone
          [of "\<lparr>Header = Map.empty, Method = ''POST'', URL = ''http://example.com/a''\<rparr>"]
  by simp

section \<open>The directive parser\<close>

lemma strings_Split_nonempty: "strings_Split s sep \<noteq> []"
  by (induction s) (auto split: list.splits)

lemma strings_Split_unfold:
  "strings_Split s sep =
     takeWhile (\<lambda>c. c \<noteq> sep) s #
       (if sep \<in> set s then strings_Split (drop 1 (dropWhile (\<lambda>c. c \<noteq> sep) s)) sep else [])"
  by (induction s) (auto split: list.splits simp: strings_Split_nonempty)

lemma strings_Split_no_sep: "f \<in> set (strings_Split s sep) \<Longrightarrow> sep \<notin> set f"
  by (induction s arbitrary: f) (auto split: list.splits if_splits)

lemma strings_Split_two_fields:
  assumes "sep \<in> set s"
  shows "\<exists>fs. strings_Split s sep =
           takeWhile (\<lambda>c. c \<noteq> sep) s
           # takeWhile (\<lambda>c. c \<noteq> sep) (drop 1 (dropWhile (\<lambda>c. c \<noteq> sep) s)) # fs"
proof -
  let ?r = "drop 1 (dropWhile (\<lambda>c. c \<noteq> sep) s)"
  have "strings_Split s sep = takeWhile (\<lambda>c. c \<noteq> sep) s # strings_Split ?r sep"
    using assms strings_Split_unfold [of s sep] by simp
  moreover have "\<exists>fs. strings_Split ?r sep = takeWhile (\<lambda>c. c \<noteq> sep) ?r # fs"
    using strings_Split_unfold [of ?r sep] by blast
  ultimately show ?thesis by auto
qed

lemma strings_Trim_subset: "set (strings_Trim s cutset) \<subseteq> set s"
proof -
  have "set (dropWhile P xs) \<subseteq> set xs" for P and xs :: string
    by (meson set_dropWhileD subsetI)
  then show ?thesis
    unfolding strings_Trim_def by (metis set_rev subset_trans)
qed

lemma dropWhile_none: "\<forall>x \<in> set xs. \<not> P x \<Longrightarrow> dropWhile P xs = xs"
  by (cases xs) auto

lemma strings_Trim_id: "set s \<inter> set cutset = {} \<Longrightarrow> strings_Trim s cutset = s"
  unfolding strings_Trim_def
  by (simp add: dropWhile_none disjoint_iff)

lemma parseCacheControl_part_directive:
  assumes "CHR '','' \<notin> set part0"
  shows "parseCacheControl_part cc part0 =
     (if strings_Trim part0 '' '' = [] then cc
      else cc(directiveName (strings_Trim part0 '' '') \<mapsto> directiveValue (strings_Trim part0 '' '')))"
proof -
  let ?t = "strings_Trim part0 '' ''"
  have nocomma: "CHR '','' \<notin> set ?t"
    using assms strings_Trim_subset [of part0 "'' ''"] by blast
  show ?thesis
  proof (cases "CHR ''='' \<in> set ?t")
    case True
    from strings_Split_two_fields [OF True] obtain fs where
      sp: "strings_Split ?t CHR ''='' =
             takeWhile (\<lambda>c. c \<noteq> CHR ''='') ?t
             # takeWhile (\<lambda>c. c \<noteq> CHR ''='') (drop 1 (dropWhile (\<lambda>c. c \<noteq> CHR ''='') ?t)) # fs"
      by blast
    have "set (directiveValue ?t) \<subseteq> set ?t"
      using True unfolding directiveValue_def
      by (auto dest!: set_takeWhileD in_set_dropD set_dropWhileD)
    then have "set (directiveValue ?t) \<inter> set '','' = {}"
      using nocomma by auto
    then have "strings_Trim (directiveValue ?t) '','' = directiveValue ?t"
      by (rule strings_Trim_id)
    then show ?thesis
      using True sp
      by (simp add: parseCacheControl_part_def Let_def directiveName_def directiveValue_def)
  next
    case False
    then show ?thesis
      by (simp add: parseCacheControl_part_def Let_def directiveName_def directiveValue_def)
  qed
qed

lemma foldl_parseCacheControl_part:
  assumes "\<forall>p \<in> set ps. CHR '','' \<notin> set p"
  shows "foldl parseCacheControl_part cc ps =
     cc ++ map_of (rev (map (\<lambda>t. (directiveName t, directiveValue t))
             (filter (\<lambda>t. t \<noteq> []) (map (\<lambda>p. strings_Trim p '' '') ps))))"
  using assms
proof (induction ps arbitrary: cc)
  case Nil
  then show ?case by simp
next
  case (Cons p ps)
  then show ?case
    by (simp add: parseCacheControl_part_directive map_add_upd_left)
qed

lemma parseCacheControl_tokens:
  "parseCacheControl headers =
     map_of (rev (map (\<lambda>t. (directiveName t, directiveValue t))
       (tokens (Header_Get headers ''Cache-Control''))))"
  unfolding parseCacheControl_def tokens_def
  by (subst foldl_parseCacheControl_part) (auto dest: strings_Split_no_sep)

text \<open>
  Claim C9, as the claim states it, at the header \<open>Cache-Control: ext=a=b\<close>: the value
  of \<open>ext\<close> is not everything after the first \<open>=\<close> (\<open>a=b\<close>); the token is split on every
  \<open>=\<close> and the value is the second field, \<open>a\<close>.
\<close>

theorem parseCacheControl_second_equals_counterexample:
  "parseCacheControl [''Cache-Control'' \<mapsto> [''ext=a=b'']] ''ext'' = Some ''a''
   \<and> parseCacheControl [''Cache-Control'' \<mapsto> [''ext=a=b'']] ''ext'' \<noteq> Some ''a=b''"
  by code_simp

text \<open>
  Claim C9, amended. For every \<open>Cache-Control\<close> header value the parser splits the value
  on commas, trims the spaces of each token and ignores the empty tokens; a token
  without \<open>=\<close> is stored under an empty value; a token with \<open>=\<close> is stored under its
  name, the text before the first \<open>=\<close> with spaces trimmed, and its value is the text
  between the first \<open>=\<close> and the second one, or up to the end of the token when it has
  no second \<open>=\<close>; a later token of the same name replaces an earlier one. An absent
  header and an empty header give the same empty mapping.
\<close>

theorem parseCacheControl_directives:
  "parseCacheControl headers =
     map_of (rev (map (\<lambda>t. (directiveName t, directiveValue t))
       (tokens (Header_Get headers ''Cache-Control''))))
   \<and> parseCacheControl Map.empty = Map.empty
   \<and> parseCacheControl [''Cache-Control'' \<mapsto> [[]]] = Map.empty"
proof -
  have "Header_Get Map.empty ''Cache-Control'' = []"
    by (simp add: Header_Get_def)
  moreover have "Header_Get [''Cache-Control'' \<mapsto> [[]]] ''Cache-Control'' = []"
    by code_simp
  moreover have "tokens [] = []"
    by (simp add: tokens_def strings_Trim_def)
  ultimately show ?thesis
    by (simp add: parseCacheControl_tokens)
qed

theorem parseCacheControl_directives_witness:
  "parseCacheControl [''Cache-Control'' \<mapsto> [''max-age = 60, no-cache ,, ext=a=b, max-age=5'']]
     = [''no-cache'' \<mapsto> [], ''ext'' \<mapsto> ''a'', ''max-age'' \<mapsto> ''5'']"
proof -
  have "map (\<lambda>t. (directiveName t, directiveValue t))
          (tokens (Header_Get [''Cache-Control'' \<mapsto> [''max-age = 60, no-cache ,, ext=a=b, max-age=5'']]
             ''Cache-Control''))
        = [(''max-age'', '' 60''), (''no-cache'', []), (''ext'', ''a''), (''max-age'', ''5'')]"
    by code_simp
  then show ?thesis
    using parseCacheControl_directives
            [of "[''Cache-Control'' \<mapsto> [''max-age = 60, no-cache ,, ext=a=b, max-age=5'']]"]
    by (simp add: fun_eq_iff)
qed

section \<open>The streaming capture wrapper\<close>

lemma eofReads_Cons:
  "eofReads (res # ress) =
     (if snd res = Some EOF then [1] else []) @ map Suc (eofReads ress)"
proof -
  have "[0..<length (res # ress)] = 0 # map Suc [0..<length ress]"
    by (simp add: upt_conv_Cons map_Suc_upt del: upt_Suc)
  then show ?thesis
    by (simp add: eofReads_def filter_map comp_def del: upt_Suc)
qed

lemma reads_accumulate:
  "reads rd r lens = (ress, r') \<Longrightarrow>
     buf r' = buf r @ concat (map fst ress)
     \<and> OnEOF r' = OnEOF r @ map (\<lambda>k. buf r @ concat (map fst (take k ress))) (eofReads ress)"
proof (induction lens arbitrary: r ress r')
  case Nil
  then show ?case by (simp add: eofReads_def)
next
  case (Cons lenp lens)
  obtain res r1 where one: "cachingReadCloser_Read rd r lenp = (res, r1)"
    by (cases "cachingReadCloser_Read rd r lenp")
  obtain ress1 r2 where rest: "reads rd r1 lens = (ress1, r2)"
    by (cases "reads rd r1 lens")
  from Cons.prems one rest have eq: "ress = res # ress1" "r' = r2"
    by simp_all
  have r1: "buf r1 = buf r @ fst res"
    "OnEOF r1 = (if snd res = Some EOF then OnEOF r @ [buf r @ fst res] else OnEOF r)"
    using one by (auto simp: cachingReadCloser_Read_def Let_def split: prod.splits)
  from Cons.IH [OF rest] r1 show ?case
    unfolding eq eofReads_Cons by (simp add: comp_def)
qed

text \<open>
  Claim C6, as the claim states it, on a body of three bytes read three times with a
  buffer of eight: the first read returns the bytes, the second and the third each
  report \<open>io.EOF\<close>, and the handler has been called twice, not once.
\<close>

theorem cachingReadCloser_repeated_EOF_counterexample:
  "fst (reads abcReader \<lparr>R = 0, buf = [], OnEOF = []\<rparr> [8, 8, 8])
     = [(''abc'', None), ([], Some EOF), ([], Some EOF)]
   \<and> OnEOF (snd (reads abcReader \<lparr>R = 0, buf = [], OnEOF = []\<rparr> [8, 8, 8])) = [''abc'', ''abc'']"
  by (simp add: cachingReadCloser_Read_def abcReader_def Let_def)

text \<open>
  Claim C6, amended. For every underlying stream and every sequence of reads on the
  wrapper, starting with an empty buffer, the completion callback is invoked once for
  each read on which the underlying stream reports end-of-stream, in the order of those
  reads and on no other read: never before the stream first reports end-of-stream,
  exactly once when the caller stops at the first end-of-stream, and once more for every
  further read that reports it again. Each invocation receives the full byte sequence
  accumulated so far: all the bytes returned by the reads up to and including that one.
\<close>

theorem cachingReadCloser_OnEOF_per_EOF_read:
  "OnEOF (snd (reads rd \<lparr>R = s0, buf = [], OnEOF = []\<rparr> lens))
     = map (\<lambda>k. concat (map fst (take k (fst (reads rd \<lparr>R = s0, buf = [], OnEOF = []\<rparr> lens)))))
         (eofReads (fst (reads rd \<lparr>R = s0, buf = [], OnEOF = []\<rparr> lens)))
   \<and> length (OnEOF (snd (reads rd \<lparr>R = s0, buf = [], OnEOF = []\<rparr> lens)))
     = length (filter (\<lambda>res. snd res = Some EOF)
         (fst (reads rd \<lparr>R = s0, buf = [], OnEOF = []\<rparr> lens)))"
proof -
  let ?r0 = "\<lparr>R = s0, buf = [], OnEOF = []\<rparr>"
  obtain ress r' where run: "reads rd ?r0 lens = (ress, r')"
    by (cases "reads rd ?r0 lens")
  have "length (eofReads xs) = length (filter (\<lambda>res. snd res = Some EOF) xs)" for xs
    by (induction xs) (simp_all add: eofReads_def [of "[]"] eofReads_Cons)
  then have "length (eofReads ress) = length (filter (\<lambda>res. snd res = Some EOF) ress)" .
  with reads_accumulate [OF run] run show ?thesis
    by simp
qed

theorem cachingReadCloser_OnEOF_per_EOF_read_witness:
  "OnEOF (snd (reads abcReader \<lparr>R = 0, buf = [], OnEOF = []\<rparr> [2, 2, 2])) = [''abc'']
   \<and> fst (reads abcReader \<lparr>R = 0, buf = [], OnEOF = []\<rparr> [2, 2, 2])
       = [(''ab'', None), (''c'', None), ([], Some EOF)]"
proof -
  have run: "fst (reads abcReader \<lparr>R = 0, buf = [], OnEOF = []\<rparr> [2, 2, 2])
       = [(''ab'', None), (''c'', None), ([], Some EOF)]"
    by (simp add: cachingReadCloser_Read_def abcReader_def Let_def)
  have "eofReads [(''ab'', None), (''c'', None), ([], Some EOF)] = [3]"
    by (simp add: eofReads_def upt_conv_Cons)
  with run show ?thesis
    using cachingReadCloser_OnEOF_per_EOF_read [of abcReader 0 "[2, 2, 2]"]
    by simp
qed

section \<open>Freshness\<close>



section \<open>Stale-if-error\<close>

lemma staleIfError_directive:
  "staleIfError env (parseCacheControl headers) lifetime =
     (case staleIfErrorDirective env headers of
        Absent \<Rightarrow> Inr lifetime
      | NoValue \<Rightarrow> Inl True
      | Malformed \<Rightarrow> Inl False
      | Seconds d \<Rightarrow> Inr d)"
  by (simp add: staleIfError_def staleIfErrorDirective_def split: option.splits)

text \<open>
  Claim C7, as the claim states it, fails where two of its cases meet. The request
  carries \<open>stale-if-error\<close> with no value and the response carries it with a malformed
  duration: the response's directive is read first and the result is not eligible. The
  response carries \<open>stale-if-error\<close> with no value and has no \<open>Date\<close> header: the result
  is eligible.
\<close>

theorem canStaleOnError_order_counterexample:
  "parseCacheControl [''Cache-Control'' \<mapsto> [''stale-if-error'']] ''stale-if-error'' = Some []
   \<and> \<not> canStaleOnError testEnv
         [''Cache-Control'' \<mapsto> [''stale-if-error=soon'']]
         [''Cache-Control'' \<mapsto> [''stale-if-error'']]
   \<and> Date testEnv [''Cache-Control'' \<mapsto> [''stale-if-error'']] = Inl ErrNoDateHeader
   \<and> canStaleOnError testEnv [''Cache-Control'' \<mapsto> [''stale-if-error'']] Map.empty"
  by code_simp

text \<open>
  Claim C7, amended. \<open>canStaleOnError\<close> reads the response's \<open>stale-if-error\<close> directive
  and then the request's, and the first of them that has no value or a malformed
  duration decides: no value returns eligible, a malformed duration returns not
  eligible. Otherwise, with a numeric value (the request's when it has one, else the
  response's), it returns eligible only while \<open>now - Date < value\<close> on the injected
  clock, and it does so whenever the value is not negative; it returns not eligible when
  the \<open>Date\<close> header is missing or unparseable. With the directive absent on both sides
  it returns not eligible.
\<close>

theorem canStaleOnError_policy:
  "(staleIfErrorDirective env respHeaders = NoValue
      \<longrightarrow> canStaleOnError env respHeaders reqHeaders)
   \<and> (staleIfErrorDirective env respHeaders \<noteq> Malformed
        \<and> staleIfErrorDirective env reqHeaders = NoValue
      \<longrightarrow> canStaleOnError env respHeaders reqHeaders)
   \<and> (staleIfErrorDirective env respHeaders = Absent
        \<and> staleIfErrorDirective env reqHeaders = Absent
      \<longrightarrow> \<not> canStaleOnError env respHeaders reqHeaders)
   \<and> (staleIfErrorDirective env respHeaders = Malformed
      \<longrightarrow> \<not> canStaleOnError env respHeaders reqHeaders)
   \<and> (staleIfErrorDirective env respHeaders \<noteq> NoValue
        \<and> staleIfErrorDirective env reqHeaders = Malformed
      \<longrightarrow> \<not> canStaleOnError env respHeaders reqHeaders)
   \<and> (staleIfErrorDirective env respHeaders \<noteq> NoValue
        \<and> staleIfErrorDirective env reqHeaders \<noteq> NoValue
        \<and> Date env respHeaders = Inl err
      \<longrightarrow> \<not> canStaleOnError env respHeaders reqHeaders)
   \<and> ((staleIfErrorDirective env respHeaders = Seconds v
          \<and> staleIfErrorDirective env reqHeaders = Absent
        \<or> (staleIfErrorDirective env respHeaders = Absent
             \<or> staleIfErrorDirective env respHeaders = Seconds u)
          \<and> staleIfErrorDirective env reqHeaders = Seconds v)
        \<and> Date env respHeaders = Inr date
      \<longrightarrow> (canStaleOnError env respHeaders reqHeaders \<longrightarrow> since env date <s v)
          \<and> (0 \<le>s v \<and> since env date <s v \<longrightarrow> canStaleOnError env respHeaders reqHeaders))"
  unfolding canStaleOnError_def Let_def staleIfError_directive
  by (cases "staleIfErrorDirective env respHeaders";
      cases "staleIfErrorDirective env reqHeaders";
      cases "Date env respHeaders") simp_all

theorem canStaleOnError_policy_witness:
  "canStaleOnError testEnv
     [''Cache-Control'' \<mapsto> [''stale-if-error=100''],
      ''Date'' \<mapsto> [''Thu, 01 Jan 1970 00:01:00 GMT'']] Map.empty
   \<and> \<not> canStaleOnError testEnv
     [''Cache-Control'' \<mapsto> [''stale-if-error=30''],
      ''Date'' \<mapsto> [''Thu, 01 Jan 1970 00:01:00 GMT'']] Map.empty
   \<and> canStaleOnError testEnv Map.empty [''Cache-Control'' \<mapsto> [''stale-if-error'']]
   \<and> \<not> canStaleOnError testEnv Map.empty Map.empty
   \<and> \<not> canStaleOnError testEnv [''Cache-Control'' \<mapsto> [''stale-if-error=soon'']] Map.empty"
proof -
  let ?h100 = "[''Cache-Control'' \<mapsto> [''stale-if-error=100''],
                ''Date'' \<mapsto> [''Thu, 01 Jan 1970 00:01:00 GMT'']]"
  let ?h30 = "[''Cache-Control'' \<mapsto> [''stale-if-error=30''],
               ''Date'' \<mapsto> [''Thu, 01 Jan 1970 00:01:00 GMT'']]"
  let ?bare = "[''Cache-Control'' \<mapsto> [''stale-if-error'']]"
  let ?soon = "[''Cache-Control'' \<mapsto> [''stale-if-error=soon'']]"
  have d100: "staleIfErrorDirective testEnv ?h100 = Seconds 100000000000"
    and d30: "staleIfErrorDirective testEnv ?h30 = Seconds 30000000000"
    and dbare: "staleIfErrorDirective testEnv ?bare = NoValue"
    and dsoon: "staleIfErrorDirective testEnv ?soon = Malformed"
    and dnone: "staleIfErrorDirective testEnv Map.empty = Absent"
    by code_simp+
  have date: "Date testEnv ?h100 = Inr 60" "Date testEnv ?h30 = Inr 60"
    by code_simp+
  have age: "since testEnv 60 = 60000000000"
    by code_simp
  have cmp: "(0 :: Duration) \<le>s 100000000000"
    "(60000000000 :: Duration) <s 100000000000"
    "\<not> (60000000000 :: Duration) <s 30000000000"
    by code_simp+
  have "canStaleOnError testEnv ?h100 Map.empty"
    using canStaleOnError_policy
            [where env = testEnv and respHeaders = ?h100 and reqHeaders = Map.empty
               and v = 100000000000 and date = 60]
    by (simp add: d100 dnone date age cmp)
  moreover have "\<not> canStaleOnError testEnv ?h30 Map.empty"
    using canStaleOnError_policy
            [where env = testEnv and respHeaders = ?h30 and reqHeaders = Map.empty
               and v = 30000000000 and date = 60]
    by (simp add: d30 dnone date age cmp)
  moreover have "canStaleOnError testEnv Map.empty ?bare"
    using canStaleOnError_policy
            [where env = testEnv and respHeaders = Map.empty and reqHeaders = ?bare]
    by (simp add: dbare dnone)
  moreover have "\<not> canStaleOnError testEnv Map.empty Map.empty"
    using canStaleOnError_policy
            [where env = testEnv and respHeaders = Map.empty and reqHeaders = Map.empty]
    by (simp add: dnone)
  moreover have "\<not> canStaleOnError testEnv ?soon Map.empty"
    using canStaleOnError_policy
            [where env = testEnv and respHeaders = ?soon and reqHeaders = Map.empty]
    by (simp add: dsoon)
  ultimately show ?thesis by blast
qed

section \<open>The request pipeline\<close>

lemma canon_literals:
  "CanonicalHeaderKey ''Cache-Control'' = ''Cache-Control''"
  "CanonicalHeaderKey ''if-none-match'' = ''If-None-Match''"
  "CanonicalHeaderKey ''if-modified-since'' = ''If-Modified-Since''"
  "CanonicalHeaderKey ''X-From-Cache'' = ''X-From-Cache''"
  by code_simp+

lemma parseCacheControl_cong:
  "h' ''Cache-Control'' = h ''Cache-Control'' \<Longrightarrow> parseCacheControl h' = parseCacheControl h"
  by (simp add: parseCacheControl_def Header_Get_def canon_literals)

lemma toUpper_X: "toUpper CHR ''X'' = CHR ''X''"
  by code_simp

lemma CanonicalHeaderKey_X_Varied:
  "take 9 (CanonicalHeaderKey (''X-Varied-'' @ k)) = ''X-Varied-''"
proof -
  have "canonicalise True (''X-Varied-'' @ k) = ''X-Varied-'' @ canonicalise True k"
    by (simp add: Let_def toUpper_def toLower_def lowerLetters_def upperLetters_def)
  then show ?thesis
    by (simp add: CanonicalHeaderKey_def)
qed

lemma variedHeader_other:
  assumes "take 9 k \<noteq> ''X-Varied-''"
  shows "variedHeader req h varyKey0 k = h k"
proof -
  have "CanonicalHeaderKey (''X-Varied-'' @ CanonicalHeaderKey varyKey0) \<noteq> k"
    using assms CanonicalHeaderKey_X_Varied by blast
  then show ?thesis
    by (simp add: variedHeader_def Let_def Header_Set_def)
qed

lemma foldl_variedHeader_other:
  "take 9 k \<noteq> ''X-Varied-'' \<Longrightarrow> foldl (variedHeader req) h varyKeys k = h k"
  by (induction varyKeys arbitrary: h) (simp_all add: variedHeader_other)

lemma addValidators_request:
  "Method (addValidators cachedResp req) = Method req"
  "URL (addValidators cachedResp req) = URL req"
  "parseCacheControl (Header (addValidators cachedResp req)) = parseCacheControl (Header req)"
proof -
  show "Method (addValidators cachedResp req) = Method req"
    and "URL (addValidators cachedResp req) = URL req"
    by (simp_all add: addValidators_def cloneRequest_def Let_def split: option.splits)
  have "Header (addValidators cachedResp req) ''Cache-Control'' = Header req ''Cache-Control''"
    by (simp add: addValidators_def cloneRequest_def Let_def Header_Set_def canon_literals
        split: option.splits)
  then show "parseCacheControl (Header (addValidators cachedResp req)) = parseCacheControl (Header req)"
    by (rule parseCacheControl_cong)
qed


lemma storeOrEvict_exit:
  "Exit (storeOrEvict env cc c key b req resp sent) = Completed"
  "Sent (storeOrEvict env cc c key b req resp sent) = sent"
  by (simp_all add: storeOrEvict_def Let_def split: option.splits)

text \<open>The store-or-evict step returns the response it was given: the status code and the
  body bytes are those, and so is every header but the \<open>X-Varied-\<close> ones.\<close>

lemma storeOrEvict_result:
  "\<exists>resp'. Result (storeOrEvict env cc c key b req resp sent) = Inr resp'
     \<and> StatusCode resp' = StatusCode resp
     \<and> bodyBytes (Body resp') = bodyBytes (Body resp)
     \<and> (\<forall>k. take 9 k \<noteq> ''X-Varied-'' \<longrightarrow> Header resp' k = Header resp k)"
  by (simp add: storeOrEvict_def Let_def foldl_variedHeader_other split: option.splits)

lemma storeOrEvict_directives:
  assumes "Result (storeOrEvict env cc c key b req resp sent) = Inr resp'"
  shows "parseCacheControl (Header resp') = parseCacheControl (Header resp)"
proof -
  from storeOrEvict_result [of env cc c key b req resp sent] assms
  have "\<forall>k. take 9 k \<noteq> ''X-Varied-'' \<longrightarrow> Header resp' k = Header resp k"
    by auto
  then have "Header resp' ''Cache-Control'' = Header resp ''Cache-Control''"
    by simp
  then show ?thesis by (rule parseCacheControl_cong)
qed

lemma storeOrEvict_evicts:
  assumes "\<not> (b \<and> canStore (parseCacheControl (Header req)) (parseCacheControl (Header resp)))"
  shows "storeOrEvict env cc c key b req resp sent =
           \<lparr>Result = Inr resp, Cache = Cache_Delete c key, Sent = sent, Exit = Completed\<rparr>"
  using assms unfolding storeOrEvict_def by (simp only: if_False)

lemma canStore_no_store:
  "canStore reqCC respCC = (''no-store'' \<notin> dom reqCC \<and> ''no-store'' \<notin> dom respCC)"
  by (auto simp: canStore_def)

lemma storeOrEvict_stored:
  assumes "c key = None"
    and "Result (storeOrEvict env cc c key True req resp sent) = Inr resp'"
  shows "Cache (storeOrEvict env cc c key True req resp sent) key =
           (if canStore (parseCacheControl (Header req)) (parseCacheControl (Header resp))
               \<and> Method req \<noteq> ''GET''
            then DumpResponse env resp' else None)"
  using assms
  by (auto simp: storeOrEvict_def Let_def Cache_Set_def Cache_Delete_def split: option.splits)

lemma storeOrEvict_drained:
  assumes "c key = None"
    and "Result (storeOrEvict env cc c key True req resp sent) = Inr resp'"
    and "canStore (parseCacheControl (Header req)) (parseCacheControl (Header resp))"
    and "Method req = ''GET''"
  shows "drainBody env cc (Cache (storeOrEvict env cc c key True req resp sent)) resp' key =
           DumpResponse env (resp'\<lparr>Body := Stream (bodyBytes (Body resp))\<rparr>)"
  using assms
  by (auto simp: storeOrEvict_def Let_def drainBody_def OnEOF_store_def Cache_Set_def
      split: option.splits)


lemma roundTripCached_completed:
  assumes "Exit (roundTripCached env cc c key cachedResp req) = Completed"
    and "\<forall>r resp0. Transport cc r = Inr resp0 \<longrightarrow> plainBody resp0"
    and "plainBody cachedResp"
  shows "\<exists>c' resp0. roundTripCached env cc c key cachedResp req
                       = storeOrEvict env cc c' key True req resp0 [req]
                     \<and> plainBody resp0"
proof (cases "Transport cc req")
  case (Inl err)
  with assms(1) show ?thesis
    by (simp add: roundTripCached_def split: if_splits)
next
  case (Inr resp)
  then have plain: "plainBody resp" using assms(2) by blast
  have merged: "plainBody (cachedResp\<lparr>Header := h\<rparr>)" for h
    using assms(3) by (simp add: plainBody_def)
  from Inr assms(1) plain merged show ?thesis
    by (auto simp: roundTripCached_def split: if_splits)
qed

lemma executeRequest_completed:
  assumes "Exit (executeRequest env cc c req) = Completed"
    and "\<forall>r resp0. Transport cc r = Inr resp0 \<longrightarrow> plainBody resp0"
    and "\<forall>b r resp0. ReadResponse env b r = Some resp0 \<longrightarrow> plainBody resp0"
  shows "\<exists>c' b req' resp0 sent.
           executeRequest env cc c req = storeOrEvict env cc c' (cacheKey req) b req' resp0 sent
           \<and> parseCacheControl (Header req') = parseCacheControl (Header req)
           \<and> plainBody resp0"
proof (cases "\<exists>cachedResp0. (if cacheable req then CachedResponse env c req else Inr None)
                 = Inr (Some cachedResp0)")
  case True
  then obtain cachedResp0 where
    hit: "(if cacheable req then CachedResponse env c req else Inr None) = Inr (Some cachedResp0)"
    by blast
  then have "\<exists>b. ReadResponse env b req = Some cachedResp0"
    by (auto simp: CachedResponse_def split: if_splits prod.splits option.splits)
  then have plain0: "plainBody cachedResp0"
    using assms(3) by blast
  define cachedResp where "cachedResp =
    (if MarkCachedResponses (Options cc)
     then cachedResp0\<lparr>Header := Header_Set (Header cachedResp0) ''X-From-Cache'' ''1''\<rparr>
     else cachedResp0)"
  have plain: "plainBody cachedResp"
    using plain0 by (simp add: cachedResp_def plainBody_def)
  have "\<exists>req'. executeRequest env cc c req
                  = roundTripCached env cc
                      (if cacheable req then c else Cache_Delete c (cacheKey req))
                      (cacheKey req) cachedResp req'
               \<and> parseCacheControl (Header req') = parseCacheControl (Header req)"
    using assms(1) hit
    by (auto simp: executeRequest_def Let_def cachedResp_def addValidators_request
        split: if_splits)
  then obtain req' where
    run: "executeRequest env cc c req
            = roundTripCached env cc
                (if cacheable req then c else Cache_Delete c (cacheKey req))
                (cacheKey req) cachedResp req'"
    and dirs: "parseCacheControl (Header req') = parseCacheControl (Header req)"
    by blast
  from roundTripCached_completed [OF assms(1) [unfolded run] assms(2) plain]
  obtain c' resp0 where
    "roundTripCached env cc
       (if cacheable req then c else Cache_Delete c (cacheKey req))
       (cacheKey req) cachedResp req'
     = storeOrEvict env cc c' (cacheKey req) True req' resp0 [req']"
    and "plainBody resp0"
    by blast
  with run dirs show ?thesis
    by (intro exI [of _ c'] exI [of _ True] exI [of _ req'] exI [of _ resp0] exI [of _ "[req']"])
       simp
next
  case False
  then have miss: "(case (if cacheable req then CachedResponse env c req else Inr None) of
                      Inr (Some cachedResp0) \<Rightarrow> f cachedResp0 | _ \<Rightarrow> g) = g" for f and g :: outcome
    by (auto split: sum.splits option.splits)
  show ?thesis
  proof (cases "parseCacheControl (Header req) ''only-if-cached'' \<noteq> None")
    case True
    with assms(1) obtain resp where
      made: "newGatewayTimeoutResponse env req = Inr resp"
      by (cases "newGatewayTimeoutResponse env req")
         (simp_all add: executeRequest_def Let_def miss)
    then have plain: "plainBody resp"
      using assms(3) by (auto simp: newGatewayTimeoutResponse_def split: option.splits)
    have "executeRequest env cc c req
            = storeOrEvict env cc (if cacheable req then c else Cache_Delete c (cacheKey req))
                (cacheKey req) (cacheable req) req resp []"
      using True made by (simp add: executeRequest_def Let_def miss)
    with plain show ?thesis by blast
  next
    case False
    with assms(1) obtain resp where sent: "Transport cc req = Inr resp"
      by (cases "Transport cc req") (simp_all add: executeRequest_def Let_def miss)
    then have plain: "plainBody resp" using assms(2) by blast
    have "executeRequest env cc c req
            = storeOrEvict env cc (if cacheable req then c else Cache_Delete c (cacheKey req))
                (cacheKey req) (cacheable req) req resp [req]"
      using False sent by (simp add: executeRequest_def Let_def miss)
    with plain show ?thesis by blast
  qed
qed

lemma roundTripCached_passes_on:
  assumes "Transport cc req = Inr resp"
    and "\<not> (Method req = ''GET'' \<and> StatusCode resp = 304)"
    and "Exit (roundTripCached env cc c key cachedResp req) = Completed"
  shows "roundTripCached env cc c key cachedResp req
           = storeOrEvict env cc (if StatusCode resp \<noteq> 200 then Cache_Delete c key else c)
               key True req resp [req]"
  using assms by (auto simp: roundTripCached_def split: if_splits)

lemma roundTripCached_sent:
  "Sent (roundTripCached env cc c key cachedResp req) = [req]"
  by (simp add: roundTripCached_def storeOrEvict_exit split: sum.splits)

lemma testEnv_plain:
  "\<forall>b r resp0. ReadResponse testEnv b r = Some resp0 \<longrightarrow> plainBody resp0"
  by (auto simp: testEnv_def testReadResponse_def plainBody_def gatewayTimeout_def
      freshEntry_def staleEntry_def variedEntry_def split: if_splits)

subsection \<open>Responses other than 200\<close>

text \<open>
  Claim C2, as the claim states it, fails at two exchanges with an origin that answers
  404. A \<open>HEAD\<close> request with nothing stored under its key: the 404 is returned and, no
  side carrying \<open>no-store\<close>, it is stored under the key at once. A \<open>GET\<close> request whose key
  holds a stale entry: the 404 is returned with its body wrapped for capture, and once
  the caller has read the body the key holds the 404.
\<close>

theorem non200_HEAD_stored_counterexample:
  "cacheable headRequest
   \<and> returnedStatus (executeRequest testEnv missingClient Map.empty headRequest) = Some 404
   \<and> Cache (executeRequest testEnv missingClient Map.empty headRequest) (cacheKey headRequest)
       = Some (''HTTP/1.1 404 Not Found'' @ CRLF @ CRLF)
   \<and> cacheable getRequest
   \<and> returnedStatus
         (executeRequest testEnv missingClient [exampleURL \<mapsto> bytesOf staleEntry] getRequest)
       = Some 404
   \<and> afterBodyRead testEnv missingClient
         (executeRequest testEnv missingClient [exampleURL \<mapsto> bytesOf staleEntry] getRequest)
         (cacheKey getRequest)
       = Some (''HTTP/1.1 404 Not Found'' @ CRLF @ CRLF)"
  by code_simp

text \<open>
  Claim C2, amended. For every cacheable request whose stored entry, if there is one, is
  readable, and whose transport call returns a response other than 200 that is passed
  on to the caller (it is not a 304 to a \<open>GET\<close>, and the stale entry is not returned in
  its place under stale-if-error): the entry stored before the exchange is evicted, and
  the response is returned with its status code and body bytes unchanged and its
  headers unchanged but for \<open>X-Varied-\<close> echo headers. The key then holds no entry,
  except that, when neither side carries \<open>no-store\<close>, the returned response is itself
  stored under the key: at once for \<open>HEAD\<close>, once the body has been read for \<open>GET\<close>.
\<close>

theorem non200_replaces_entry:
  assumes "cacheable req"
    and "CachedResponse env c req = Inr cached"
    and "Sent (executeRequest env cc c req) = [req']"
    and "Transport cc req' = Inr resp"
    and "StatusCode resp \<noteq> 200"
    and "\<not> (Method req = ''GET'' \<and> StatusCode resp = 304)"
    and "Exit (executeRequest env cc c req) = Completed"
  shows "\<exists>resp'. Result (executeRequest env cc c req) = Inr resp'
           \<and> StatusCode resp' = StatusCode resp
           \<and> bodyBytes (Body resp') = bodyBytes (Body resp)
           \<and> (\<forall>k. take 9 k \<noteq> ''X-Varied-'' \<longrightarrow> Header resp' k = Header resp k)
           \<and> Cache (executeRequest env cc c req) (cacheKey req)
               = (if canStore (parseCacheControl (Header req)) (parseCacheControl (Header resp))
                     \<and> Method req \<noteq> ''GET''
                  then DumpResponse env resp' else None)
           \<and> (canStore (parseCacheControl (Header req)) (parseCacheControl (Header resp))
                 \<and> Method req = ''GET''
               \<longrightarrow> drainBody env cc (Cache (executeRequest env cc c req)) resp' (cacheKey req)
                     = DumpResponse env (resp'\<lparr>Body := Stream (bodyBytes (Body resp))\<rparr>))"
proof -
  have "\<exists>c'. executeRequest env cc c req
               = storeOrEvict env cc c' (cacheKey req) True req' resp [req']
             \<and> c' (cacheKey req) = None
             \<and> Method req' = Method req
             \<and> parseCacheControl (Header req') = parseCacheControl (Header req)"
  proof (cases cached)
    case None
    with assms(1,2) have miss:
      "(case (if cacheable req then CachedResponse env c req else Inr None) of
          Inr (Some cachedResp0) \<Rightarrow> f cachedResp0 | _ \<Rightarrow> g) = g" for f and g :: outcome
      by simp
    from None assms(2) have absent: "c (cacheKey req) = None"
      by (auto simp: CachedResponse_def Cache_Get_def split: option.splits if_splits)
    have transport: "parseCacheControl (Header req) ''only-if-cached'' = None"
    proof (rule ccontr)
      assume "parseCacheControl (Header req) ''only-if-cached'' \<noteq> None"
      then have "Sent (executeRequest env cc c req) = []"
        by (auto simp: executeRequest_def Let_def miss storeOrEvict_exit split: sum.splits)
      with assms(3) show False by simp
    qed
    have "Sent (executeRequest env cc c req) = [req]"
      using transport
      by (auto simp: executeRequest_def Let_def miss storeOrEvict_exit split: sum.splits)
    with assms(3) have same: "req' = req" by simp
    have "executeRequest env cc c req
            = storeOrEvict env cc (if cacheable req then c else Cache_Delete c (cacheKey req))
                (cacheKey req) (cacheable req) req resp [req]"
      using assms(4) transport unfolding same
      by (simp add: executeRequest_def Let_def miss)
    with assms(1) absent same show ?thesis
      by (intro exI [of _ c]) simp
  next
    case (Some cachedResp0)
    define cachedResp where "cachedResp =
      (if MarkCachedResponses (Options cc)
       then cachedResp0\<lparr>Header := Header_Set (Header cachedResp0) ''X-From-Cache'' ''1''\<rparr>
       else cachedResp0)"
    have "\<exists>req''. executeRequest env cc c req
                  = roundTripCached env cc c (cacheKey req) cachedResp req''
               \<and> Method req'' = Method req
               \<and> parseCacheControl (Header req'') = parseCacheControl (Header req)"
      using assms(1,2,3) Some
      by (auto simp: executeRequest_def Let_def cachedResp_def addValidators_request
          split: if_splits)
    then obtain req'' where
      run: "executeRequest env cc c req = roundTripCached env cc c (cacheKey req) cachedResp req''"
      and same: "Method req'' = Method req"
        "parseCacheControl (Header req'') = parseCacheControl (Header req)"
      by blast
    from assms(3) have sent: "req'' = req'"
      by (simp add: run roundTripCached_sent)
    from roundTripCached_passes_on [of cc req' resp env c "cacheKey req" cachedResp]
      assms(4,5,6,7) same
    have "executeRequest env cc c req
            = storeOrEvict env cc (Cache_Delete c (cacheKey req)) (cacheKey req) True req' resp [req']"
      by (simp add: run sent)
    with same sent show ?thesis
      by (intro exI [of _ "Cache_Delete c (cacheKey req)"]) (simp add: Cache_Delete_def)
  qed
  then obtain c' where
    run: "executeRequest env cc c req = storeOrEvict env cc c' (cacheKey req) True req' resp [req']"
    and absent: "c' (cacheKey req) = None"
    and same: "Method req' = Method req"
      "parseCacheControl (Header req') = parseCacheControl (Header req)"
    by blast
  from storeOrEvict_result [of env cc c' "cacheKey req" True req' resp "[req']"]
  obtain resp' where
    res: "Result (storeOrEvict env cc c' (cacheKey req) True req' resp [req']) = Inr resp'"
    and kept: "StatusCode resp' = StatusCode resp" "bodyBytes (Body resp') = bodyBytes (Body resp)"
      "\<forall>k. take 9 k \<noteq> ''X-Varied-'' \<longrightarrow> Header resp' k = Header resp k"
    by blast
  from storeOrEvict_stored [OF absent res] storeOrEvict_drained [OF absent res]
    res kept same
  show ?thesis
    unfolding run by (intro exI [of _ resp']) simp
qed

theorem non200_replaces_entry_witness:
  "cacheable getRequest
   \<and> Exit (executeRequest testEnv missingClient [exampleURL \<mapsto> bytesOf staleEntry] getRequest)
       = Completed
   \<and> returnedStatus
         (executeRequest testEnv missingClient [exampleURL \<mapsto> bytesOf staleEntry] getRequest)
       = Some 404
   \<and> Cache (executeRequest testEnv missingClient [exampleURL \<mapsto> bytesOf staleEntry] getRequest)
         (cacheKey getRequest) = None"
proof -
  let ?c = "[exampleURL \<mapsto> bytesOf staleEntry]"
  let ?out = "executeRequest testEnv missingClient ?c getRequest"
  have cacheable: "cacheable getRequest"
    by code_simp
  have exit: "Exit ?out = Completed"
    by code_simp
  have ne: "''HTTP/1.1 504 Gateway Timeout'' @ CRLF @ CRLF \<noteq> bytesOf staleEntry"
    "bytesOf freshEntry \<noteq> bytesOf staleEntry"
    by code_simp+
  have cached: "CachedResponse testEnv ?c getRequest = Inr (Some staleEntry)"
    using ne
    by (simp add: CachedResponse_def Cache_Get_def cacheKey_def getRequest_def testEnv_def
        testReadResponse_def)
  have "length (Sent ?out) = 1"
    by code_simp
  then obtain req' where sent: "Sent ?out = [req']"
    by (cases "Sent ?out") auto
  have answer: "Transport missingClient req' = Inr notFound"
    by (simp add: missingClient_def)
  have status: "StatusCode notFound \<noteq> 200"
    "\<not> (Method getRequest = ''GET'' \<and> StatusCode notFound = 304)"
    by (simp_all add: notFound_def)
  have get: "Method getRequest = ''GET''"
    by (simp add: getRequest_def)
  from non200_replaces_entry [OF cacheable cached sent answer status exit] get
  have "returnedStatus ?out = Some 404 \<and> Cache ?out (cacheKey getRequest) = None"
    by (auto simp: returnedStatus_def notFound_def)
  with cacheable exit show ?thesis by simp
qed

subsection \<open>no-store\<close>

text \<open>
  Claim C3, as the claim states it, fails at a \<open>GET\<close> request with
  \<open>Cache-Control: no-store\<close> whose key holds a fresh entry: the entry is returned from the
  cache, no line of the store-or-evict step runs, and the entry is in storage after the
  exchange, also once the body has been read.
\<close>

theorem no_store_fresh_hit_counterexample:
  "parseCacheControl (Header noStoreRequest) ''no-store'' = Some []
   \<and> Exit (executeRequest testEnv okClient [exampleURL \<mapsto> bytesOf freshEntry] noStoreRequest)
       = FreshHit
   \<and> returnedStatus
         (executeRequest testEnv okClient [exampleURL \<mapsto> bytesOf freshEntry] noStoreRequest)
       = Some 200
   \<and> Cache (executeRequest testEnv okClient [exampleURL \<mapsto> bytesOf freshEntry] noStoreRequest)
         (cacheKey noStoreRequest)
       = Some (bytesOf freshEntry)
   \<and> afterBodyRead testEnv okClient
         (executeRequest testEnv okClient [exampleURL \<mapsto> bytesOf freshEntry] noStoreRequest)
         (cacheKey noStoreRequest)
       = Some (bytesOf freshEntry)"
  by code_simp

text \<open>
  Claim C3, amended. For every exchange that reaches the store-or-evict step (one that
  is not answered from the cache, by a fresh entry or under stale-if-error, and that
  does not end with an error) and in which the request's or the returned response's
  \<open>Cache-Control\<close> contains \<open>no-store\<close>: no entry for the request's key is in storage
  after the exchange, and no capture is put around the body, so that reading it stores
  nothing. The bodies that the transport and \<open>http.ReadResponse\<close> hand over are taken to
  be plain ones.
\<close>

theorem no_store_leaves_no_entry:
  assumes "Exit (executeRequest env cc c req) = Completed"
    and "Result (executeRequest env cc c req) = Inr resp"
    and "''no-store'' \<in> dom (parseCacheControl (Header req))
         \<or> ''no-store'' \<in> dom (parseCacheControl (Header resp))"
    and "\<forall>r resp0. Transport cc r = Inr resp0 \<longrightarrow> plainBody resp0"
    and "\<forall>b r resp0. ReadResponse env b r = Some resp0 \<longrightarrow> plainBody resp0"
  shows "Cache (executeRequest env cc c req) (cacheKey req) = None
         \<and> plainBody resp
         \<and> drainBody env cc (Cache (executeRequest env cc c req)) resp
             = Cache (executeRequest env cc c req)"
proof -
  from executeRequest_completed [OF assms(1) assms(4) assms(5)]
  obtain c' b req' resp0 sent where
    run: "executeRequest env cc c req = storeOrEvict env cc c' (cacheKey req) b req' resp0 sent"
    and dirs: "parseCacheControl (Header req') = parseCacheControl (Header req)"
    and plain: "plainBody resp0"
    by blast
  from assms(2) have res: "Result (storeOrEvict env cc c' (cacheKey req) b req' resp0 sent) = Inr resp"
    by (simp add: run)
  have "parseCacheControl (Header resp) = parseCacheControl (Header resp0)"
    using res by (rule storeOrEvict_directives)
  with assms(3) dirs
  have "\<not> (b \<and> canStore (parseCacheControl (Header req')) (parseCacheControl (Header resp0)))"
    by (auto simp: canStore_no_store)
  from storeOrEvict_evicts [OF this]
  have evict: "executeRequest env cc c req =
           \<lparr>Result = Inr resp0, Cache = Cache_Delete c' (cacheKey req), Sent = sent,
            Exit = Completed\<rparr>"
    by (simp add: run)
  with assms(2) have "resp = resp0" by simp
  with evict plain show ?thesis
    by (auto simp: Cache_Delete_def drainBody_def plainBody_def split: body.splits)
qed

theorem no_store_leaves_no_entry_witness:
  "parseCacheControl (Header noStoreRequest) ''no-store'' = Some []
   \<and> Exit (executeRequest testEnv okClient [exampleURL \<mapsto> bytesOf staleEntry] noStoreRequest)
       = Completed
   \<and> Cache (executeRequest testEnv okClient [exampleURL \<mapsto> bytesOf staleEntry] noStoreRequest)
         (cacheKey noStoreRequest) = None"
proof -
  let ?out = "executeRequest testEnv okClient [exampleURL \<mapsto> bytesOf staleEntry] noStoreRequest"
  have ns: "parseCacheControl (Header noStoreRequest) ''no-store'' = Some []"
    by code_simp
  have exit: "Exit ?out = Completed"
    by code_simp
  have "returnedStatus ?out = Some 200"
    by code_simp
  then obtain resp where res: "Result ?out = Inr resp"
    by (cases "Result ?out") (simp_all add: returnedStatus_def)
  have plainT: "\<forall>r resp0. Transport okClient r = Inr resp0 \<longrightarrow> plainBody resp0"
    by (simp add: okClient_def okResponse_def plainBody_def)
  from ns have "''no-store'' \<in> dom (parseCacheControl (Header noStoreRequest))
                \<or> ''no-store'' \<in> dom (parseCacheControl (Header resp))"
    by (simp add: domIff)
  from no_store_leaves_no_entry [OF exit res this plainT testEnv_plain] ns exit
  show ?thesis
    by simp
qed

subsection \<open>only-if-cached\<close>




subsection \<open>Validators\<close>

text \<open>
  Claim C5, evaluated where the code departs from it. A \<open>GET\<close> request that carries a
  header \<open>Etag: x\<close> and no \<open>If-None-Match\<close>, with a stale entry of \<open>ETag\<close> \<open>v1\<close> under its
  key: the request given to the transport has no \<open>If-None-Match\<close>, because line 160
  tests the request's \<open>etag\<close> header where it means \<open>if-none-match\<close>. The same exchange
  for a request without the \<open>Etag\<close> header sends \<open>If-None-Match: v1\<close>.
\<close>

theorem revalidation_without_If_None_Match:
  "Header_Get (Header etagRequest) ''if-none-match'' = []
   \<and> Header_Get (Header staleEntry) ''etag'' = ''v1''
   \<and> varyMatches staleEntry etagRequest
   \<and> getFreshness testEnv etagRequest (Header staleEntry) = stale
   \<and> map (\<lambda>r. Header_Get (Header r) ''if-none-match'')
         (Sent (executeRequest testEnv okClient [exampleURL \<mapsto> bytesOf staleEntry] etagRequest))
       = [[]]
   \<and> map (\<lambda>r. Header_Get (Header r) ''if-none-match'')
         (Sent (executeRequest testEnv okClient [exampleURL \<mapsto> bytesOf staleEntry] getRequest))
       = [''v1'']"
  by code_simp

end
